theory Spec2Isabelle
  imports Complex_Main "HOL-Library.Sublist"
begin

section \<open>Data model (app/models.py)\<close>

text \<open>
  \<^verbatim>\<open>VideoStatus\<close> is the closed four-valued enumeration of \<^verbatim>\<open>app/models.py\<close>;
  \<^verbatim>\<open>VideoAnalysis\<close> is the single table \<^verbatim>\<open>video_analysis\<close>, one record per row.
  The primary key column \<^verbatim>\<open>id\<close> is called \<open>id_uuid\<close> here (\<open>id\<close> is the identity
  function of HOL). Nullable columns are options. Timestamps are naive UTC instants,
  counted in microseconds.
\<close>

type_synonym uuid = nat
type_synonym datetime = int
type_synonym path = string

datatype VideoStatus = PENDING | PROCESSING | COMPLETED | FAILED

record VideoAnalysis =
  id_uuid :: uuid
  filename :: string
  upload_time :: datetime
  analysis_time :: "datetime option"
  has_motion :: "bool option"
  processing_duration_ms :: "int option"
  status :: VideoStatus
  error_message :: "string option"

text \<open>\<^verbatim>\<open>VideoStatus.X.value\<close>: the text of each member.\<close>

fun status_value :: "VideoStatus \<Rightarrow> string" where
  "status_value PENDING = ''pending''"
| "status_value PROCESSING = ''processing''"
| "status_value COMPLETED = ''completed''"
| "status_value FAILED = ''failed''"

section \<open>The world the background task acts on\<close>

text \<open>
  Everything \<^verbatim>\<open>process_video_analysis\<close> reads or writes outside its own locals:
  the committed rows of the table, the set of paths that exist in the file system, the
  four Prometheus metrics of \<^verbatim>\<open>app/metrics.py\<close> (a labelled counter, the list of values
  observed by the histogram, a counter, a gauge), whether the database session has been
  closed, and a trace of the events whose order matters: a successful commit (with the
  row as written), a commit that raised (with the text of the exception), and a call of
  the detector, which is preceded in the trace by the table as it is committed at that
  moment, that is, by what a lookup from another session sees while the detector runs.
  Calls of the logger change nothing here and are left out; the logger, the metric
  functions and the opening and closing of the session do not raise.
\<close>

datatype event =
    Commit VideoAnalysis
  | CommitRaised string
  | Snapshot "VideoAnalysis list"
  | DetectMotion path

record world =
  rows :: "VideoAnalysis list"
  files :: "path set"
  video_processed_total :: "string \<Rightarrow> nat"
  video_processing_duration_seconds :: "real list"
  video_errors_total :: nat
  videos_in_queue :: int
  session_closed :: bool
  events :: "event list"

text \<open>
  What the environment decides during one run, one field per call site of
  \<^verbatim>\<open>app/main.py\<close>: for each call into the database or the file system, whether it
  raises of its own (\<open>Some\<close> of the exception's text) or not (\<open>None\<close>), and the
  reading of the clock at line 77.
\<close>

record env =
  lookup_raises :: "string option"
  commit_processing_raises :: "string option"
  utcnow :: datetime
  commit_completed_raises :: "string option"
  relookup_raises :: "string option"
  commit_failed_raises :: "string option"
  remove_raises :: "string option"
  count_raises :: "string option"

section \<open>Python control flow\<close>

text \<open>
  A statement completes normally (with a value), by \<^verbatim>\<open>return\<close>, or by raising an
  exception, of which only the text \<^verbatim>\<open>str(e)\<close> is kept. The exceptions are those
  derived from \<^verbatim>\<open>Exception\<close>, which \<^verbatim>\<open>except Exception\<close> catches.

  The state of a run is the world together with the state of the session \<^verbatim>\<open>db\<close> of
  the run: whether its transaction has failed. It fails when a commit raises, and
  \<^verbatim>\<open>process_video_analysis\<close> never calls \<^verbatim>\<open>rollback\<close>, so it stays failed to the end of
  the run. A procedure maps a state to a completion and the state it leaves behind.
\<close>

datatype 'a completion = Normal 'a | Return | Raise string

type_synonym state = "world \<times> bool"

type_synonym 'a prog = "state \<Rightarrow> 'a completion \<times> state"

definition bind_prog :: "'a prog \<Rightarrow> ('a \<Rightarrow> 'b prog) \<Rightarrow> 'b prog" where
  "bind_prog m f s =
     (case m s of
        (Normal a, s1) \<Rightarrow> f a s1
      | (Return, s1) \<Rightarrow> (Return, s1)
      | (Raise e, s1) \<Rightarrow> (Raise e, s1))"

fun effect :: "(world \<Rightarrow> world) \<Rightarrow> unit prog" where
  "effect f (w, failed) = (Normal (), (f w, failed))"

definition return_stmt :: "'a prog" where
  "return_stmt s = (Return, s)"

text \<open>\<^verbatim>\<open>try: body except Exception as e: handler\<close>\<close>

definition try_except :: "unit prog \<Rightarrow> (string \<Rightarrow> unit prog) \<Rightarrow> unit prog" where
  "try_except body handler s =
     (case body s of
        (Raise e, s1) \<Rightarrow> handler e s1
      | (c, s1) \<Rightarrow> (c, s1))"

text \<open>
  \<^verbatim>\<open>try: body finally: final\<close>: the final block always runs; when it completes
  normally the completion of the body stands, otherwise its own replaces it.
\<close>

definition try_finally :: "unit prog \<Rightarrow> unit prog \<Rightarrow> unit prog" where
  "try_finally body final s =
     (case body s of
        (c, s1) \<Rightarrow>
          (case final s1 of
             (Normal u, s2) \<Rightarrow> (c, s2)
           | (c', s2) \<Rightarrow> (c', s2)))"

section \<open>Collaborators: session, file system, metrics\<close>

text \<open>
  The session. With a failed transaction every call on the session raises
  (\<^verbatim>\<open>PendingRollbackError\<close>), whatever the environment would have done. Otherwise:

  \<^item> \<^verbatim>\<open>db.query(VideoAnalysis).filter(VideoAnalysis.id == video_id).first()\<close> raises if
    the environment says so, and leaves the session as it is; else it gives the first
    row with that key. Whenever the task queries with a usable session, the session
    holds no change that is not committed (every change of the task is followed by a
    commit, and after a commit that raised the session is not usable), so the row is
    read from the committed table.
  \<^item> \<^verbatim>\<open>db.commit()\<close> with one modified object \<open>video_record\<close>: either the row is
    written (\<open>commit_row\<close>: the row with that key is replaced, and the commit is
    traced), or the commit raises, nothing is written, the raise is traced and the
    transaction of the session has failed.
  \<^item> \<^verbatim>\<open>db.query(VideoAnalysis).filter(VideoAnalysis.status.in_([PENDING, PROCESSING])).count()\<close>
    raises if the environment says so; else it counts the committed rows in the queue.
\<close>

fun db_query_first :: "string option \<Rightarrow> uuid \<Rightarrow> VideoAnalysis option prog" where
  "db_query_first fault video_id (w, failed) =
     (if failed then (Raise ''PendingRollbackError'', (w, failed))
      else case fault of
             Some m \<Rightarrow> (Raise m, (w, failed))
           | None \<Rightarrow> (Normal (find (\<lambda>r. id_uuid r = video_id) (rows w)), (w, failed)))"

definition commit_row :: "VideoAnalysis \<Rightarrow> world \<Rightarrow> world" where
  "commit_row video_record w =
     w\<lparr>rows := map (\<lambda>r. if id_uuid r = id_uuid video_record then video_record else r) (rows w),
       events := events w @ [Commit video_record]\<rparr>"

definition trace_commit_raised :: "string \<Rightarrow> world \<Rightarrow> world" where
  "trace_commit_raised m w = w\<lparr>events := events w @ [CommitRaised m]\<rparr>"

fun db_commit :: "string option \<Rightarrow> VideoAnalysis \<Rightarrow> unit prog" where
  "db_commit fault video_record (w, failed) =
     (if failed then (Raise ''PendingRollbackError'', (w, failed))
      else case fault of
             Some m \<Rightarrow> (Raise m, (trace_commit_raised m w, True))
           | None \<Rightarrow> (Normal (), (commit_row video_record w, failed)))"

definition in_queue :: "VideoAnalysis \<Rightarrow> bool" where
  "in_queue r = (status r = PENDING \<or> status r = PROCESSING)"

fun db_count_in_queue :: "string option \<Rightarrow> int prog" where
  "db_count_in_queue fault (w, failed) =
     (if failed then (Raise ''PendingRollbackError'', (w, failed))
      else case fault of
             Some m \<Rightarrow> (Raise m, (w, failed))
           | None \<Rightarrow> (Normal (int (length (filter in_queue (rows w)))), (w, failed)))"

definition db_close :: "unit prog" where
  "db_close = effect (\<lambda>w. w\<lparr>session_closed := True\<rparr>)"

text \<open>\<^verbatim>\<open>os.path.exists\<close> and \<^verbatim>\<open>os.remove\<close>; removing a path that is not there raises.\<close>

fun os_path_exists :: "path \<Rightarrow> state \<Rightarrow> bool" where
  "os_path_exists p (w, failed) = (p \<in> files w)"

fun os_remove :: "string option \<Rightarrow> path \<Rightarrow> unit prog" where
  "os_remove fault p (w, failed) =
     (case fault of
        Some m \<Rightarrow> (Raise m, (w, failed))
      | None \<Rightarrow>
          (if p \<in> files w then (Normal (), (w\<lparr>files := files w - {p}\<rparr>, failed))
           else (Raise ''FileNotFoundError'', (w, failed))))"

text \<open>app/metrics.py. The four functions only update the process-wide metric objects.\<close>

definition increment_video_processed :: "string \<Rightarrow> world \<Rightarrow> world" where
  "increment_video_processed label w =
     w\<lparr>video_processed_total := (video_processed_total w)(label := video_processed_total w label + 1)\<rparr>"

definition observe_processing_duration :: "real \<Rightarrow> world \<Rightarrow> world" where
  "observe_processing_duration duration_seconds w =
     w\<lparr>video_processing_duration_seconds := video_processing_duration_seconds w @ [duration_seconds]\<rparr>"

definition increment_video_errors :: "world \<Rightarrow> world" where
  "increment_video_errors w = w\<lparr>video_errors_total := video_errors_total w + 1\<rparr>"

definition set_videos_in_queue :: "int \<Rightarrow> world \<Rightarrow> world" where
  "set_videos_in_queue n w = w\<lparr>videos_in_queue := n\<rparr>"

text \<open>
  \<^verbatim>\<open>analyzer.detect_motion(video_path)\<close>: the analyzer is injected, as in the source;
  it either raises (\<open>Inl\<close> of the text) or returns the pair. The call is traced, after
  the rows of the table as they are committed when the call starts.
\<close>

type_synonym analyzer = "path \<Rightarrow> string + bool \<times> int"

definition trace_detect :: "path \<Rightarrow> world \<Rightarrow> world" where
  "trace_detect video_path w =
     w\<lparr>events := events w @ [Snapshot (rows w), DetectMotion video_path]\<rparr>"

fun call_detect_motion :: "analyzer \<Rightarrow> path \<Rightarrow> (bool \<times> int) prog" where
  "call_detect_motion analyzer video_path (w, failed) =
     (case analyzer video_path of
        Inl m \<Rightarrow> (Raise m, (trace_detect video_path w, failed))
      | Inr res \<Rightarrow> (Normal res, (trace_detect video_path w, failed)))"

section \<open>process_video_analysis (app/main.py, lines 42 to 121)\<close>

text \<open>Lines 62 to 85, the body of the outer \<^verbatim>\<open>try\<close>.\<close>

definition try_block :: "env \<Rightarrow> analyzer \<Rightarrow> uuid \<Rightarrow> path \<Rightarrow> unit prog" where
  "try_block en analyzer video_id video_path =
     bind_prog (db_query_first (lookup_raises en) video_id) (\<lambda>found.
       case found of
         None \<Rightarrow> return_stmt
       | Some video_record \<Rightarrow>
           bind_prog (db_commit (commit_processing_raises en)
                        (video_record\<lparr>status := PROCESSING\<rparr>)) (\<lambda>_.
           bind_prog (call_detect_motion analyzer video_path) (\<lambda>(hm, duration_ms).
           bind_prog (db_commit (commit_completed_raises en)
                        (video_record\<lparr>status := PROCESSING,
                                      has_motion := Some hm,
                                      processing_duration_ms := Some duration_ms,
                                      analysis_time := Some (utcnow en),
                                      status := COMPLETED\<rparr>)) (\<lambda>_.
           bind_prog (effect (increment_video_processed (status_value COMPLETED))) (\<lambda>_.
           effect (observe_processing_duration (real_of_int duration_ms / 1000)))))))"

text \<open>Lines 87 to 101, the handler \<^verbatim>\<open>except Exception as e\<close>, with its inner \<^verbatim>\<open>try\<close>.\<close>

definition mark_failed :: "env \<Rightarrow> uuid \<Rightarrow> string \<Rightarrow> unit prog" where
  "mark_failed en video_id e =
     bind_prog (db_query_first (relookup_raises en) video_id) (\<lambda>found.
       case found of
         None \<Rightarrow> effect (\<lambda>w. w)
       | Some video_record \<Rightarrow>
           db_commit (commit_failed_raises en)
             (video_record\<lparr>status := FAILED, error_message := Some e\<rparr>))"

definition except_block :: "env \<Rightarrow> uuid \<Rightarrow> string \<Rightarrow> unit prog" where
  "except_block en video_id e =
     bind_prog (try_except (mark_failed en video_id e) (\<lambda>db_error. effect (\<lambda>w. w))) (\<lambda>_.
     bind_prog (effect (increment_video_processed (status_value FAILED))) (\<lambda>_.
     effect increment_video_errors))"

text \<open>Lines 103 to 121, the \<^verbatim>\<open>finally\<close> block.\<close>

definition remove_temp_file :: "env \<Rightarrow> path \<Rightarrow> unit prog" where
  "remove_temp_file en video_path =
     try_except
       (\<lambda>s. if os_path_exists video_path s then os_remove (remove_raises en) video_path s
            else (Normal (), s))
       (\<lambda>e. effect (\<lambda>w. w))"

definition update_queue_metric :: "env \<Rightarrow> bool \<Rightarrow> unit prog" where
  "update_queue_metric en should_close =
     try_finally
       (try_except
          (bind_prog (db_count_in_queue (count_raises en)) (\<lambda>pending_count.
             effect (set_videos_in_queue pending_count)))
          (\<lambda>e. effect (\<lambda>w. w)))
       (if should_close then db_close else effect (\<lambda>w. w))"

definition finally_block :: "env \<Rightarrow> path \<Rightarrow> bool \<Rightarrow> unit prog" where
  "finally_block en video_path should_close =
     bind_prog (remove_temp_file en video_path) (\<lambda>_. update_queue_metric en should_close)"

text \<open>
  The whole task, from a world to the completion and the world it leaves.
  \<open>should_close\<close> is true when no session was passed in (\<^verbatim>\<open>db_session is None\<close>) and
  the task opened its own. The session of the run, opened at line 58 or handed in, is
  usable when the task starts.
\<close>

definition process_video_analysis ::
    "env \<Rightarrow> analyzer \<Rightarrow> bool \<Rightarrow> uuid \<Rightarrow> path \<Rightarrow> world \<Rightarrow> unit completion \<times> world" where
  "process_video_analysis en analyzer should_close video_id video_path w =
     (case try_finally
             (try_except (try_block en analyzer video_id video_path) (except_block en video_id))
             (finally_block en video_path should_close) (w, False) of
        (c, (w', failed)) \<Rightarrow> (c, w'))"

text \<open>The part of the task inside the outer \<^verbatim>\<open>try\<close>/\<^verbatim>\<open>except\<close>, before \<^verbatim>\<open>finally\<close>.\<close>

definition main_part :: "env \<Rightarrow> analyzer \<Rightarrow> uuid \<Rightarrow> path \<Rightarrow> world \<Rightarrow> unit completion \<times> state" where
  "main_part en analyzer video_id video_path w =
     try_except (try_block en analyzer video_id video_path) (except_block en video_id) (w, False)"

section \<open>Observing a run\<close>

text \<open>
  The record as the upload handler creates it (\<^verbatim>\<open>analyze_video\<close>, lines 140 to 146):
  \<^verbatim>\<open>VideoAnalysis(filename=file.filename, status=VideoStatus.PENDING)\<close>, every nullable
  column empty, the key and the upload time given by the column defaults.
\<close>

definition new_video_analysis :: "uuid \<Rightarrow> string \<Rightarrow> datetime \<Rightarrow> VideoAnalysis" where
  "new_video_analysis video_id name now =
     \<lparr>id_uuid = video_id, filename = name, upload_time = now, analysis_time = None,
      has_motion = None, processing_duration_ms = None, status = PENDING,
      error_message = None\<rparr>"

definition lookup :: "uuid \<Rightarrow> world \<Rightarrow> VideoAnalysis option" where
  "lookup video_id w = find (\<lambda>r. id_uuid r = video_id) (rows w)"

text \<open>The events a run added to the trace, and the statuses it persisted for one record.\<close>

definition new_events :: "world \<Rightarrow> world \<Rightarrow> event list" where
  "new_events w w' = drop (length (events w)) (events w')"

fun status_trace :: "uuid \<Rightarrow> event list \<Rightarrow> VideoStatus list" where
  "status_trace v [] = []"
| "status_trace v (Commit r # es) =
     (if id_uuid r = v then status r # status_trace v es else status_trace v es)"
| "status_trace v (CommitRaised m # es) = status_trace v es"
| "status_trace v (Snapshot tbl # es) = status_trace v es"
| "status_trace v (DetectMotion p # es) = status_trace v es"

text \<open>Whether a commit raised among the events.\<close>

fun commit_raised :: "event list \<Rightarrow> bool" where
  "commit_raised [] = False"
| "commit_raised (CommitRaised m # es) = True"
| "commit_raised (e # es) = commit_raised es"

text \<open>
  The persisted statuses of a record over a run: the one it had before, followed by
  every status a commit of the run wrote.
\<close>

definition status_history :: "uuid \<Rightarrow> world \<Rightarrow> world \<Rightarrow> VideoStatus list" where
  "status_history v w w' =
     (case lookup v w of None \<Rightarrow> [] | Some r \<Rightarrow> [status r]) @ status_trace v (new_events w w')"

definition terminal :: "VideoAnalysis \<Rightarrow> bool" where
  "terminal r = (status r = COMPLETED \<or> status r = FAILED)"

definition result_set :: "VideoAnalysis \<Rightarrow> bool" where
  "result_set r = (has_motion r \<noteq> None \<and> processing_duration_ms r \<noteq> None)"

definition error_set :: "VideoAnalysis \<Rightarrow> bool" where
  "error_set r = (error_message r \<noteq> None)"

section \<open>VideoAnalyzer.detect_motion (app/services/video_analyzer.py)\<close>

text \<open>
  The analyzer's configuration, as set by \<^verbatim>\<open>__init__\<close>. \<open>frame_skip\<close> is a Python
  \<^verbatim>\<open>int\<close> and is not validated.
\<close>

record VideoAnalyzer =
  motion_threshold :: real
  frame_skip :: int

text \<open>
  The exceptions that leave the function: the two \<^verbatim>\<open>ValueError\<close>s it raises itself
  (their texts are Russian in the source and are given here in English), the
  \<^verbatim>\<open>ZeroDivisionError\<close> of the modulo of line 62, and \<^verbatim>\<open>cv2.error\<close>, raised by a call
  into OpenCV. The handler of line 100 logs each of them and raises it again.
\<close>

datatype exn = ValueError string | ZeroDivisionError | Cv2Error

text \<open>
  The OpenCV operations of the loop, on grayscale images given as rows of 8-bit
  intensities.

  \<^item> \<^verbatim>\<open>cvtColor(frame, COLOR_BGR2GRAY)\<close> is a parameter \<open>cvt\<close> of the model: it gives
    the grayscale image, or \<open>None\<close> when OpenCV raises (as it does on an empty frame).
  \<^item> \<^verbatim>\<open>absdiff\<close> raises when the two images differ in size, and is the difference of
    the intensities otherwise.
  \<^item> \<^verbatim>\<open>threshold(.., 30, 255, THRESH_BINARY)\<close>, \<^verbatim>\<open>countNonZero\<close> and \<^verbatim>\<open>shape\<close> do not
    raise on an image that \<^verbatim>\<open>absdiff\<close> returned.
\<close>

type_synonym gray = "nat list list"

definition absdiff :: "gray \<Rightarrow> gray \<Rightarrow> exn + gray" where
  "absdiff a b =
     (if map length a = map length b
      then Inr (map2 (map2 (\<lambda>x y. if x \<le> y then y - x else x - y)) a b)
      else Inl Cv2Error)"

definition threshold_binary :: "nat \<Rightarrow> nat \<Rightarrow> gray \<Rightarrow> gray" where
  "threshold_binary thresh maxval g = map (map (\<lambda>x. if thresh < x then maxval else 0)) g"

definition countNonZero :: "gray \<Rightarrow> nat" where
  "countNonZero g = length (filter (\<lambda>x. x \<noteq> 0) (concat g))"

definition shape0 :: "gray \<Rightarrow> nat" where
  "shape0 g = length g"

definition shape1 :: "gray \<Rightarrow> nat" where
  "shape1 g = (case g of [] \<Rightarrow> 0 | row # _ \<Rightarrow> length row)"

text \<open>
  Lines 69 to 77: the share of pixels that changed by more than 30. The division of
  line 77 is a float division and is read over the reals.
\<close>

definition motion_ratio :: "gray \<Rightarrow> gray \<Rightarrow> exn + real" where
  "motion_ratio prev_gray gray_frame =
     (case absdiff prev_gray gray_frame of
        Inl e \<Rightarrow> Inl e
      | Inr frame_diff \<Rightarrow>
          (let thresh = threshold_binary 30 255 frame_diff;
               motion_pixels = countNonZero thresh;
               total_pixels = shape0 thresh * shape1 thresh
           in Inr (if 0 < total_pixels then real motion_pixels / real total_pixels else 0)))"

text \<open>
  Lines 54 to 87, the \<^verbatim>\<open>while True\<close> loop over the frames that \<^verbatim>\<open>cap.read()\<close> still
  delivers; the loop ends when the frames are exhausted or at the \<^verbatim>\<open>break\<close> of line
  85. \<^verbatim>\<open>frame_count % (self.frame_skip + 1)\<close> raises when the divisor is zero; on a
  frame that is not skipped, \<^verbatim>\<open>cvtColor\<close> (line 66) and \<^verbatim>\<open>absdiff\<close> (line 69) can raise.
  The loop returns \<open>motion_detected\<close> and \<open>frames_analyzed\<close>.
\<close>

fun analyze_frames ::
    "('f \<Rightarrow> gray option) \<Rightarrow> VideoAnalyzer \<Rightarrow> gray \<Rightarrow> int \<Rightarrow> int \<Rightarrow> bool \<Rightarrow> 'f list \<Rightarrow>
       exn + bool \<times> int" where
  "analyze_frames cvt a prev_gray frame_count frames_analyzed motion_detected [] =
     Inr (motion_detected, frames_analyzed)"
| "analyze_frames cvt a prev_gray frame_count frames_analyzed motion_detected (frame # rest) =
     (if frame_skip a + 1 = 0 then Inl ZeroDivisionError
      else if (frame_count + 1) mod (frame_skip a + 1) \<noteq> 0
      then analyze_frames cvt a prev_gray (frame_count + 1) frames_analyzed motion_detected rest
      else case cvt frame of
             None \<Rightarrow> Inl Cv2Error
           | Some gray_frame \<Rightarrow>
               (case motion_ratio prev_gray gray_frame of
                  Inl e \<Rightarrow> Inl e
                | Inr ratio \<Rightarrow>
                    (if motion_threshold a < ratio
                     then (if 10 \<le> frames_analyzed + 1 then Inr (True, frames_analyzed + 1)
                           else analyze_frames cvt a gray_frame (frame_count + 1)
                                  (frames_analyzed + 1) True rest)
                     else analyze_frames cvt a gray_frame (frame_count + 1)
                            (frames_analyzed + 1) motion_detected rest)))"

text \<open>
  Python's \<^verbatim>\<open>int(x)\<close> on a float: truncation towards zero. The two readings of
  \<^verbatim>\<open>time.time()\<close>, their difference and the product with 1000 are floats in the
  source and reals here: the float result can differ from the real one in the last
  millisecond, not in its sign.
\<close>

definition py_int :: "real \<Rightarrow> int" where
  "py_int x = (if 0 \<le> x then \<lfloor>x\<rfloor> else \<lceil>x\<rceil>)"

text \<open>
  The whole function. \<open>cap\<close> is what \<^verbatim>\<open>cv2.VideoCapture(video_path)\<close> gives: \<open>None\<close>
  when the file cannot be opened, otherwise the frames it can read, in order.
  \<open>start_time\<close> and \<open>end_time\<close> are the two readings of \<^verbatim>\<open>time.time()\<close>, in seconds.
\<close>

definition detect_motion ::
    "('f \<Rightarrow> gray option) \<Rightarrow> VideoAnalyzer \<Rightarrow> real \<Rightarrow> real \<Rightarrow> path \<Rightarrow> 'f list option \<Rightarrow>
       exn + bool \<times> int" where
  "detect_motion cvt a start_time end_time video_path cap =
     (case cap of
        None \<Rightarrow> Inl (ValueError (''Could not open video file: '' @ video_path))
      | Some [] \<Rightarrow> Inl (ValueError ''Could not read the first frame of the video'')
      | Some (prev_frame # rest) \<Rightarrow>
          (case cvt prev_frame of
             None \<Rightarrow> Inl Cv2Error
           | Some prev_gray \<Rightarrow>
               (case analyze_frames cvt a prev_gray 0 0 False rest of
                  Inl e \<Rightarrow> Inl e
                | Inr (motion_detected, frames_analyzed) \<Rightarrow>
                    Inr (motion_detected, py_int ((end_time - start_time) * 1000)))))"

section \<open>Concrete runs\<close>

text \<open>
  One uploaded record, its temporary file, fresh metrics with the gauge at one (as the
  upload handler leaves it), and environments in which single calls raise.
\<close>

definition clip :: VideoAnalysis where
  "clip = new_video_analysis 1 ''clip.mp4'' 1000"

definition clip_path :: path where
  "clip_path = ''/tmp/1_clip.mp4''"

definition world0 :: world where
  "world0 =
     \<lparr>rows = [clip], files = {clip_path}, video_processed_total = (\<lambda>label. 0),
      video_processing_duration_seconds = [], video_errors_total = 0, videos_in_queue = 1,
      session_closed = False, events = []\<rparr>"

definition no_faults :: env where
  "no_faults =
     \<lparr>lookup_raises = None, commit_processing_raises = None, utcnow = 2000,
      commit_completed_raises = None, relookup_raises = None, commit_failed_raises = None,
      remove_raises = None, count_raises = None\<rparr>"

text \<open>The analyzer of \<^verbatim>\<open>app/dependencies.py\<close>: \<^verbatim>\<open>VideoAnalyzer(motion_threshold=0.01, frame_skip=5)\<close>.\<close>

definition get_video_analyzer :: VideoAnalyzer where
  "get_video_analyzer = \<lparr>motion_threshold = 1 / 100, frame_skip = 5\<rparr>"

definition motion_found :: analyzer where
  "motion_found p = Inr (True, 250)"

definition unreadable :: analyzer where
  "unreadable p = Inl ''Could not open video file''"

section \<open>The blocks in closed form\<close>

text \<open>
  Each block of the task, computed once for an arbitrary environment and state; the
  properties below are read off these equations.
\<close>

lemmas flow_defs = bind_prog_def return_stmt_def try_except_def try_finally_def

lemmas metric_defs = increment_video_processed_def observe_processing_duration_def
  increment_video_errors_def set_videos_in_queue_def

lemmas write_defs = commit_row_def trace_detect_def trace_commit_raised_def

lemmas example_defs = world0_def no_faults_def clip_def clip_path_def new_video_analysis_def
  motion_found_def unreadable_def

lemma find_key: "find (\<lambda>x. id_uuid x = v) rs = Some r \<Longrightarrow> id_uuid r = v"
  by (induction rs) (auto split: if_splits)

lemma find_map_update:
  "find (\<lambda>x. id_uuid x = v) rs = Some r \<Longrightarrow> id_uuid r' = v \<Longrightarrow>
     find (\<lambda>x. id_uuid x = v) (map (\<lambda>x. if id_uuid x = v then r' else x) rs) = Some r'"
  by (induction rs) (auto split: if_splits)

lemma lookup_key: "lookup v w = Some r \<Longrightarrow> id_uuid r = v"
  unfolding lookup_def by (rule find_key)

lemma lookup_commit_row:
  "lookup v w = Some cur \<Longrightarrow> id_uuid r = v \<Longrightarrow> lookup v (commit_row r w) = Some r"
  by (simp add: lookup_def commit_row_def find_map_update)

lemma lookup_trace:
  "lookup v (trace_detect p w) = lookup v w"
  "lookup v (trace_commit_raised m w) = lookup v w"
  by (simp_all add: lookup_def write_defs)

lemma lookup_metrics:
  "lookup v (increment_video_errors w) = lookup v w"
  "lookup v (increment_video_processed l w) = lookup v w"
  "lookup v (observe_processing_duration x w) = lookup v w"
  by (simp_all add: lookup_def metric_defs)

lemma finally_block_eq:
  "finally_block en p sc (w, failed) =
     (Normal (),
      (w\<lparr>files := (if remove_raises en = None then files w - {p} else files w),
         videos_in_queue := (if \<not> failed \<and> count_raises en = None
                             then int (length (filter in_queue (rows w)))
                             else videos_in_queue w),
         session_closed := (sc \<or> session_closed w)\<rparr>,
       failed))"
  by (auto simp add: finally_block_def remove_temp_file_def update_queue_metric_def flow_defs
        db_close_def set_videos_in_queue_def split: option.splits)

lemma except_block_failed:
  "except_block en v e (w, True) =
     (Normal (), (increment_video_errors (increment_video_processed ''failed'' w), True))"
  by (simp add: except_block_def mark_failed_def flow_defs)

lemma except_block_eq:
  "except_block en v e (w, False) =
     (case relookup_raises en of
        Some m \<Rightarrow> (Normal (), (increment_video_errors (increment_video_processed ''failed'' w), False))
      | None \<Rightarrow>
         (case lookup v w of
            None \<Rightarrow> (Normal (), (increment_video_errors (increment_video_processed ''failed'' w), False))
          | Some cur \<Rightarrow>
             (case commit_failed_raises en of
                Some m \<Rightarrow>
                  (Normal (),
                   (increment_video_errors (increment_video_processed ''failed''
                      (trace_commit_raised m w)), True))
              | None \<Rightarrow>
                  (Normal (),
                   (increment_video_errors (increment_video_processed ''failed''
                      (commit_row (cur\<lparr>status := FAILED, error_message := Some e\<rparr>) w)), False)))))"
  by (simp add: except_block_def mark_failed_def lookup_def flow_defs split: option.splits)

lemma try_block_eq:
  "try_block en a v p (w, False) =
    (case lookup_raises en of
       Some m \<Rightarrow> (Raise m, (w, False))
     | None \<Rightarrow>
       (case lookup v w of
          None \<Rightarrow> (Return, (w, False))
        | Some r \<Rightarrow>
          (case commit_processing_raises en of
             Some m \<Rightarrow> (Raise m, (trace_commit_raised m w, True))
           | None \<Rightarrow>
             (case a p of
                Inl m \<Rightarrow> (Raise m, (trace_detect p (commit_row (r\<lparr>status := PROCESSING\<rparr>) w), False))
              | Inr (hm, d) \<Rightarrow>
                 (case commit_completed_raises en of
                    Some m \<Rightarrow>
                      (Raise m,
                       (trace_commit_raised m
                          (trace_detect p (commit_row (r\<lparr>status := PROCESSING\<rparr>) w)), True))
                  | None \<Rightarrow>
                     (Normal (),
                      (observe_processing_duration (real_of_int d / 1000)
                        (increment_video_processed ''completed''
                          (commit_row (r\<lparr>has_motion := Some hm,
                                         processing_duration_ms := Some d,
                                         analysis_time := Some (utcnow en),
                                         status := COMPLETED\<rparr>)
                             (trace_detect p (commit_row (r\<lparr>status := PROCESSING\<rparr>) w)))),
                       False)))))))"
  by (simp add: try_block_def lookup_def flow_defs
        split: option.splits sum.splits prod.splits)

lemma main_part_eq:
  "main_part en a v p w =
     (case try_block en a v p (w, False) of
        (Raise e, s1) \<Rightarrow> except_block en v e s1
      | (c, s1) \<Rightarrow> (c, s1))"
  by (simp add: main_part_def try_except_def)

lemma process_eq:
  "process_video_analysis en a sc v p w =
     (fst (main_part en a v p w),
      fst (snd (finally_block en p sc (snd (main_part en a v p w)))))"
proof -
  obtain c w1 f1 where m: "main_part en a v p w = (c, (w1, f1))"
    by (metis prod.collapse)
  then show ?thesis
    by (simp add: process_video_analysis_def main_part_def try_finally_def finally_block_eq)
qed

text \<open>The task on a record that is there, and on one that is not.\<close>

lemma except_block_present:
  assumes "lookup v w = Some cur"
  shows "except_block en v e (w, False) =
     (if relookup_raises en = None
      then (case commit_failed_raises en of
              None \<Rightarrow>
                (Normal (),
                 (increment_video_errors (increment_video_processed ''failed''
                    (commit_row (cur\<lparr>status := FAILED, error_message := Some e\<rparr>) w)), False))
            | Some m \<Rightarrow>
                (Normal (),
                 (increment_video_errors (increment_video_processed ''failed''
                    (trace_commit_raised m w)), True)))
      else (Normal (), (increment_video_errors (increment_video_processed ''failed'' w), False)))"
  using assms by (simp add: except_block_eq split: option.splits)

lemma except_block_absent:
  assumes "lookup v w = None"
  shows "except_block en v e (w, False) =
     (Normal (), (increment_video_errors (increment_video_processed ''failed'' w), False))"
  using assms by (simp add: except_block_eq split: option.splits)

lemma lookup_processing:
  assumes "lookup v w = Some r"
  shows "lookup v (trace_detect p (commit_row (r\<lparr>status := PROCESSING\<rparr>) w)) = Some (r\<lparr>status := PROCESSING\<rparr>)"
  using assms lookup_key [OF assms] by (simp add: lookup_trace lookup_commit_row)

lemma main_part_present:
  assumes "lookup v w = Some r"
  shows "main_part en a v p w =
    (case lookup_raises en of
       Some m \<Rightarrow> except_block en v m (w, False)
     | None \<Rightarrow>
       (case commit_processing_raises en of
          Some m \<Rightarrow> except_block en v m (trace_commit_raised m w, True)
        | None \<Rightarrow>
          (case a p of
             Inl m \<Rightarrow>
               except_block en v m (trace_detect p (commit_row (r\<lparr>status := PROCESSING\<rparr>) w), False)
           | Inr (hm, d) \<Rightarrow>
              (case commit_completed_raises en of
                 Some m \<Rightarrow>
                   except_block en v m
                     (trace_commit_raised m
                        (trace_detect p (commit_row (r\<lparr>status := PROCESSING\<rparr>) w)), True)
               | None \<Rightarrow>
                  (Normal (),
                   (observe_processing_duration (real_of_int d / 1000)
                     (increment_video_processed ''completed''
                       (commit_row (r\<lparr>has_motion := Some hm,
                                      processing_duration_ms := Some d,
                                      analysis_time := Some (utcnow en),
                                      status := COMPLETED\<rparr>)
                          (trace_detect p (commit_row (r\<lparr>status := PROCESSING\<rparr>) w)))),
                    False))))))"
  using assms by (simp add: main_part_eq try_block_eq split: option.splits sum.splits prod.splits)

lemma main_part_absent:
  assumes "lookup v w = None"
  shows "main_part en a v p w =
    (case lookup_raises en of
       Some m \<Rightarrow> (Normal (), (increment_video_errors (increment_video_processed ''failed'' w), False))
     | None \<Rightarrow> (Return, (w, False)))"
  using assms by (simp add: main_part_eq try_block_eq except_block_absent split: option.splits)

lemma main_part_fst: "fst (main_part en a v p w) = Normal () \<or> fst (main_part en a v p w) = Return"
  by (simp add: main_part_eq try_block_eq except_block_eq except_block_failed
        split: option.splits sum.splits prod.splits)

lemma main_part_files: "files (fst (snd (main_part en a v p w))) = files w"
  by (simp add: main_part_eq try_block_eq except_block_eq except_block_failed metric_defs write_defs
        split: option.splits sum.splits prod.splits)

text \<open>What the whole task leaves, in terms of the part before \<^verbatim>\<open>finally\<close>.\<close>

lemma finally_block_pair:
  "finally_block en p sc s =
     (Normal (),
      ((fst s)\<lparr>files := (if remove_raises en = None then files (fst s) - {p} else files (fst s)),
         videos_in_queue := (if \<not> snd s \<and> count_raises en = None
                             then int (length (filter in_queue (rows (fst s))))
                             else videos_in_queue (fst s)),
         session_closed := (sc \<or> session_closed (fst s))\<rparr>,
       snd s))"
  by (cases s) (simp add: finally_block_eq)

lemma process_projections:
  "rows (snd (process_video_analysis en a sc v p w)) = rows (fst (snd (main_part en a v p w)))"
  "events (snd (process_video_analysis en a sc v p w)) = events (fst (snd (main_part en a v p w)))"
  "video_processed_total (snd (process_video_analysis en a sc v p w)) =
     video_processed_total (fst (snd (main_part en a v p w)))"
  "video_errors_total (snd (process_video_analysis en a sc v p w)) =
     video_errors_total (fst (snd (main_part en a v p w)))"
  "video_processing_duration_seconds (snd (process_video_analysis en a sc v p w)) =
     video_processing_duration_seconds (fst (snd (main_part en a v p w)))"
  by (simp_all add: process_eq finally_block_pair)

lemma process_new_events:
  "new_events w (snd (process_video_analysis en a sc v p w)) =
     new_events w (fst (snd (main_part en a v p w)))"
  by (simp add: new_events_def process_projections)

lemma process_lookup:
  "lookup v' (snd (process_video_analysis en a sc v p w)) =
     lookup v' (fst (snd (main_part en a v p w)))"
  by (simp add: lookup_def process_projections)

lemma new_events_present:
  assumes "lookup v w = Some r"
  shows "new_events w (fst (snd (main_part en a v p w))) =
    (let failed = (\<lambda>cur e. if relookup_raises en = None
                            then (case commit_failed_raises en of
                                    None \<Rightarrow> [Commit (cur\<lparr>status := FAILED, error_message := Some e\<rparr>)]
                                  | Some m \<Rightarrow> [CommitRaised m])
                            else []);
         proc = r\<lparr>status := PROCESSING\<rparr>
     in case lookup_raises en of
          Some m \<Rightarrow> failed r m
        | None \<Rightarrow>
          (case commit_processing_raises en of
             Some m \<Rightarrow> [CommitRaised m]
           | None \<Rightarrow>
              [Commit proc,
               Snapshot (map (\<lambda>x. if id_uuid x = v then proc else x) (rows w)),
               DetectMotion p] @
              (case a p of
                 Inl m \<Rightarrow> failed proc m
               | Inr (hm, d) \<Rightarrow>
                  (case commit_completed_raises en of
                     Some m \<Rightarrow> [CommitRaised m]
                   | None \<Rightarrow> [Commit (r\<lparr>has_motion := Some hm, processing_duration_ms := Some d,
                                         analysis_time := Some (utcnow en), status := COMPLETED\<rparr>)]))))"
proof -
  have k: "id_uuid r = v" by (rule lookup_key [OF assms])
  show ?thesis
    unfolding main_part_present [OF assms] except_block_present [OF assms]
      except_block_present [OF lookup_processing [OF assms]] except_block_failed
    by (simp add: new_events_def metric_defs write_defs Let_def k
          split: option.splits sum.splits prod.splits)
qed

lemma new_events_absent:
  assumes "lookup v w = None"
  shows "new_events w (fst (snd (main_part en a v p w))) = []"
  unfolding main_part_absent [OF assms]
  by (simp add: new_events_def metric_defs split: option.splits)

lemma session_failed_present:
  assumes "lookup v w = Some r"
  shows "snd (snd (main_part en a v p w)) =
           commit_raised (new_events w (fst (snd (main_part en a v p w))))"
  unfolding new_events_present [OF assms]
  unfolding main_part_present [OF assms] except_block_present [OF assms]
      except_block_present [OF lookup_processing [OF assms]] except_block_failed
  by (simp add: Let_def split: option.splits sum.splits prod.splits)

lemma session_failed_iff:
  "snd (snd (main_part en a v p w)) =
     commit_raised (new_events w (fst (snd (main_part en a v p w))))"
proof (cases "lookup v w")
  case None
  then show ?thesis
    by (simp add: new_events_absent) (simp add: main_part_absent split: option.splits)
next
  case (Some r)
  then show ?thesis by (rule session_failed_present)
qed

lemma main_part_gauge: "videos_in_queue (fst (snd (main_part en a v p w))) = videos_in_queue w"
  by (simp add: main_part_eq try_block_eq except_block_eq except_block_failed metric_defs write_defs
        split: option.splits sum.splits prod.splits)

lemma final_record_present:
  assumes "lookup v w = Some r"
  shows "lookup v (fst (snd (main_part en a v p w))) =
    Some (let failed = (\<lambda>cur e. if relookup_raises en = None \<and> commit_failed_raises en = None
                            then cur\<lparr>status := FAILED, error_message := Some e\<rparr> else cur);
         proc = r\<lparr>status := PROCESSING\<rparr>
     in case lookup_raises en of
          Some m \<Rightarrow> failed r m
        | None \<Rightarrow>
          (case commit_processing_raises en of
             Some m \<Rightarrow> r
           | None \<Rightarrow>
              (case a p of
                 Inl m \<Rightarrow> failed proc m
               | Inr (hm, d) \<Rightarrow>
                  (case commit_completed_raises en of
                     Some m \<Rightarrow> proc
                   | None \<Rightarrow> r\<lparr>has_motion := Some hm, processing_duration_ms := Some d,
                                 analysis_time := Some (utcnow en), status := COMPLETED\<rparr>))))"
proof -
  have k: "id_uuid r = v" by (rule lookup_key [OF assms])
  note p2 = lookup_processing [OF assms]
  show ?thesis
    unfolding main_part_present [OF assms] except_block_present [OF assms]
      except_block_present [OF p2] except_block_failed
    by (auto simp add: lookup_metrics lookup_trace lookup_commit_row [OF assms] lookup_commit_row [OF p2]
          assms p2 k Let_def
          split: option.splits sum.splits prod.splits)
qed

lemma detector_called_iff:
  "DetectMotion p \<in> set (new_events w (fst (snd (main_part en a v p w)))) \<longleftrightarrow>
     lookup v w \<noteq> None \<and> lookup_raises en = None \<and> commit_processing_raises en = None"
proof (cases "lookup v w")
  case None
  then show ?thesis by (simp add: new_events_absent)
next
  case (Some r)
  then show ?thesis
    by (simp add: new_events_present [OF Some] Let_def split: option.splits sum.splits prod.splits)
qed

lemma metrics_completed:
  assumes "lookup v w = Some r" "lookup_raises en = None" "commit_processing_raises en = None"
      "a p = Inr (hm, d)" "commit_completed_raises en = None"
  shows "video_processed_total (fst (snd (main_part en a v p w))) =
           (video_processed_total w)(''completed'' := video_processed_total w ''completed'' + 1)"
    and "video_processing_duration_seconds (fst (snd (main_part en a v p w))) =
           video_processing_duration_seconds w @ [real_of_int d / 1000]"
    and "video_errors_total (fst (snd (main_part en a v p w))) = video_errors_total w"
  unfolding main_part_present [OF assms(1)]
  using assms(2-) by (simp_all add: metric_defs write_defs)

lemma except_block_metrics:
  "video_processed_total (fst (snd (except_block en v e (w, f)))) =
     (video_processed_total w)(''failed'' := video_processed_total w ''failed'' + 1)"
  "video_errors_total (fst (snd (except_block en v e (w, f)))) = video_errors_total w + 1"
  "video_processing_duration_seconds (fst (snd (except_block en v e (w, f)))) =
     video_processing_duration_seconds w"
  by (cases f; simp add: except_block_eq except_block_failed metric_defs write_defs split: option.splits)+

lemma write_metrics:
  "video_processed_total (trace_detect p (commit_row r w)) = video_processed_total w"
  "video_errors_total (trace_detect p (commit_row r w)) = video_errors_total w"
  "video_processing_duration_seconds (trace_detect p (commit_row r w)) = video_processing_duration_seconds w"
  "video_processed_total (trace_commit_raised m w) = video_processed_total w"
  "video_errors_total (trace_commit_raised m w) = video_errors_total w"
  "video_processing_duration_seconds (trace_commit_raised m w) = video_processing_duration_seconds w"
  by (simp_all add: write_defs)

lemma metrics_failed:
  assumes "lookup v w = Some r" "lookup_raises en = None" "commit_processing_raises en = None"
      "a p = Inl m \<or> (\<exists>m. commit_completed_raises en = Some m)"
  shows "video_processed_total (fst (snd (main_part en a v p w))) =
           (video_processed_total w)(''failed'' := video_processed_total w ''failed'' + 1)"
    and "video_processing_duration_seconds (fst (snd (main_part en a v p w))) =
           video_processing_duration_seconds w"
    and "video_errors_total (fst (snd (main_part en a v p w))) = video_errors_total w + 1"
  unfolding main_part_present [OF assms(1)]
  using assms(2-) by (auto simp add: except_block_metrics write_metrics split: sum.splits prod.splits)

text \<open>Evaluating a concrete run.\<close>

lemmas run_simps = process_eq finally_block_pair main_part_eq try_block_eq
  except_block_eq except_block_failed lookup_def metric_defs write_defs in_queue_def

lemmas eval_simps = run_simps status_history_def new_events_def example_defs

section \<open>The loop of the detector\<close>

lemma analyze_frames_returns:
  "frame_skip a \<noteq> - 1 \<Longrightarrow>
   \<forall>f \<in> set fs. \<exists>g. cvt f = Some g \<and> map length g = shp \<Longrightarrow>
   map length prev_gray = shp \<Longrightarrow>
     \<exists>motion_detected frames_analyzed.
        analyze_frames cvt a prev_gray fc fa md fs = Inr (motion_detected, frames_analyzed)"
proof (induction fs arbitrary: prev_gray fc fa md)
  case Nil
  then show ?case by simp
next
  case (Cons frame rest)
  from Cons.prems(2) obtain g where g: "cvt frame = Some g" "map length g = shp" by auto
  from Cons.prems(2) have rest: "\<forall>f \<in> set rest. \<exists>g. cvt f = Some g \<and> map length g = shp" by simp
  have ratio: "\<exists>x. motion_ratio prev_gray g = Inr x"
    using g(2) Cons.prems(3) by (simp add: motion_ratio_def absdiff_def Let_def)
  then obtain x where x: "motion_ratio prev_gray g = Inr x" by blast
  show ?case
    using Cons.IH [OF Cons.prems(1) rest Cons.prems(3)] Cons.IH [OF Cons.prems(1) rest g(2)]
      Cons.prems(1)
    by (auto simp add: g x)
qed

lemma py_int_nonneg: "0 \<le> x \<Longrightarrow> 0 \<le> py_int x"
  by (simp add: py_int_def)

section \<open>Properties of the background task\<close>

text \<open>
  C1, as the code has it. For a record that is pending when the task starts on it, the
  statuses persisted over the run form a subsequence of pending, processing, completed
  or of pending, processing, failed, and never go back: the history is one of the five
  listed. When the first lookup does not raise, the record does not skip processing on
  its way to a terminal state, and when moreover the commit of the processing
  transition does not raise, processing is persisted. When the first lookup raises, the
  record goes from pending directly to failed if the handler's lookup and commit do not
  raise, and stays pending otherwise.
\<close>

theorem status_history_of_run:
  assumes "lookup video_id w = Some r" and "status r = PENDING"
  shows "(subseq (status_history video_id w (snd (process_video_analysis en analyzer should_close video_id video_path w)))
            [PENDING, PROCESSING, COMPLETED] \<or>
          subseq (status_history video_id w (snd (process_video_analysis en analyzer should_close video_id video_path w)))
            [PENDING, PROCESSING, FAILED]) \<and>
         status_history video_id w (snd (process_video_analysis en analyzer should_close video_id video_path w))
           \<in> {[PENDING], [PENDING, PROCESSING], [PENDING, PROCESSING, COMPLETED],
               [PENDING, PROCESSING, FAILED], [PENDING, FAILED]} \<and>
         (lookup_raises en = None \<longrightarrow>
          status_history video_id w (snd (process_video_analysis en analyzer should_close video_id video_path w))
           \<in> {[PENDING], [PENDING, PROCESSING], [PENDING, PROCESSING, COMPLETED],
               [PENDING, PROCESSING, FAILED]}) \<and>
         (lookup_raises en = None \<and> commit_processing_raises en = None \<longrightarrow>
          status_history video_id w (snd (process_video_analysis en analyzer should_close video_id video_path w))
           \<in> {[PENDING, PROCESSING], [PENDING, PROCESSING, COMPLETED], [PENDING, PROCESSING, FAILED]}) \<and>
         (lookup_raises en \<noteq> None \<longrightarrow>
          status_history video_id w (snd (process_video_analysis en analyzer should_close video_id video_path w)) =
            (if relookup_raises en = None \<and> commit_failed_raises en = None
             then [PENDING, FAILED] else [PENDING]))"
proof -
  have k: "id_uuid r = video_id" by (rule lookup_key [OF assms(1)])
  show ?thesis
    by (auto simp add: status_history_def assms k process_new_events new_events_present [OF assms(1)] Let_def
          split: option.splits sum.splits prod.splits)
qed

theorem status_history_of_run_witness:
  "lookup 1 world0 = Some clip \<and> status clip = PENDING \<and>
   lookup_raises no_faults = None \<and> commit_processing_raises no_faults = None \<and>
   status_history 1 world0 (snd (process_video_analysis no_faults motion_found True 1 clip_path world0)) =
     [PENDING, PROCESSING, COMPLETED] \<and>
   lookup_raises (no_faults\<lparr>lookup_raises := Some ''OperationalError''\<rparr>) \<noteq> None \<and>
   status_history 1 world0 (snd (process_video_analysis
      (no_faults\<lparr>lookup_raises := Some ''OperationalError''\<rparr>) motion_found True 1 clip_path world0)) =
     [PENDING, FAILED]"
  using status_history_of_run [of 1 world0 clip no_faults motion_found True clip_path]
    status_history_of_run [of 1 world0 clip "no_faults\<lparr>lookup_raises := Some ''OperationalError''\<rparr>"
      motion_found True clip_path]
  by (simp add: eval_simps)

text \<open>
  C1 as stated fails: when the lookup of line 63 raises, the handler of line 87 looks
  the record up again, still pending, and marks it failed (lines 92 to 96). The record
  reaches a terminal state without ever having been processing.
\<close>

theorem processing_skipped_when_lookup_raises:
  "status_history 1 world0 (snd (process_video_analysis
      (no_faults\<lparr>lookup_raises := Some ''OperationalError''\<rparr>) motion_found True 1 clip_path world0)) =
     [PENDING, FAILED]"
  by (simp add: eval_simps)

text \<open>
  When it is the commit of line 69 that raises, the session is left with a failed
  transaction, the handler's lookup raises as well, and the record stays pending.
\<close>

lemma pending_kept_when_commit_of_processing_raises:
  "status_history 1 world0 (snd (process_video_analysis
      (no_faults\<lparr>commit_processing_raises := Some ''OperationalError''\<rparr>) motion_found True 1 clip_path world0)) =
     [PENDING]"
  by (simp add: eval_simps)

text \<open>
  C2, as the code has it. A record that is pending, without result and without error
  message when the task starts on it (as the upload handler creates it), and terminal
  afterwards, has exactly one of the two: the result (\<open>has_motion\<close> and
  \<open>processing_duration_ms\<close>), which it has exactly when it is completed, or the error
  message, which it has exactly when it is failed.
\<close>

theorem terminal_exclusivity:
  assumes "lookup video_id w = Some r" and "status r = PENDING"
      and "\<not> result_set r" and "\<not> error_set r"
      and "lookup video_id (snd (process_video_analysis en analyzer should_close video_id video_path w)) = Some r'"
      and "terminal r'"
  shows "result_set r' \<noteq> error_set r' \<and>
         result_set r' = (status r' = COMPLETED) \<and>
         error_set r' = (status r' = FAILED)"
  using assms(2-)
  by (auto simp add: process_lookup final_record_present [OF assms(1)] Let_def terminal_def
        result_set_def error_set_def
        split: option.splits sum.splits prod.splits if_splits)

theorem terminal_exclusivity_witness:
  "lookup 1 world0 = Some clip \<and> status clip = PENDING \<and> \<not> result_set clip \<and> \<not> error_set clip \<and>
   lookup 1 (snd (process_video_analysis no_faults unreadable True 1 clip_path world0)) =
     Some (clip\<lparr>status := FAILED, error_message := Some ''Could not open video file''\<rparr>) \<and>
   terminal (clip\<lparr>status := FAILED, error_message := Some ''Could not open video file''\<rparr>) \<and>
   \<not> result_set (clip\<lparr>status := FAILED, error_message := Some ''Could not open video file''\<rparr>) \<and>
   error_set (clip\<lparr>status := FAILED, error_message := Some ''Could not open video file''\<rparr>)"
  using terminal_exclusivity [of 1 world0 clip no_faults unreadable True clip_path
      "clip\<lparr>status := FAILED, error_message := Some ''Could not open video file''\<rparr>"]
  by (simp add: eval_simps terminal_def result_set_def error_set_def)

text \<open>
  C2 as stated fails: the task does not look at the status it finds (line 68 sets
  processing whatever it was), and the handler of lines 94 and 95 leaves the result
  fields alone. A record completed by a first run and run again, with its file gone so
  that the detector raises, ends failed with the result of the first run and the error
  of the second both set.
\<close>

theorem result_and_error_after_second_run:
  "map_option status (lookup 1 (snd (process_video_analysis no_faults unreadable True 1 clip_path
      (snd (process_video_analysis no_faults motion_found True 1 clip_path world0))))) = Some FAILED \<and>
   map_option result_set (lookup 1 (snd (process_video_analysis no_faults unreadable True 1 clip_path
      (snd (process_video_analysis no_faults motion_found True 1 clip_path world0))))) = Some True \<and>
   map_option error_set (lookup 1 (snd (process_video_analysis no_faults unreadable True 1 clip_path
      (snd (process_video_analysis no_faults motion_found True 1 clip_path world0))))) = Some True"
  by (simp add: eval_simps result_set_def error_set_def)

text \<open>
  C3, as the code has it. When \<^verbatim>\<open>os.remove\<close> does not raise, the file at
  \<open>video_path\<close> does not exist after the run, whichever branch the run took.
\<close>

theorem artifact_removed_unless_remove_raises:
  "remove_raises en = None \<Longrightarrow>
     video_path \<notin> files (snd (process_video_analysis en analyzer should_close video_id video_path w))"
  by (simp add: process_eq finally_block_pair)

theorem artifact_removed_unless_remove_raises_witness:
  "remove_raises no_faults = None \<and> clip_path \<in> files world0 \<and>
   clip_path \<notin> files (snd (process_video_analysis no_faults motion_found True 1 clip_path world0))"
  using artifact_removed_unless_remove_raises [of no_faults clip_path motion_found True 1 world0]
  by (simp add: no_faults_def world0_def)

text \<open>
  C3 as stated fails: when \<^verbatim>\<open>os.remove\<close> raises (line 107), the handler of line 108
  logs the error and the file is still there after the run.
\<close>

theorem artifact_survives_failed_removal:
  "clip_path \<in> files (snd (process_video_analysis
       (no_faults\<lparr>remove_raises := Some ''PermissionError''\<rparr>) motion_found True 1 clip_path world0))"
  by (simp add: process_eq finally_block_pair main_part_files world0_def)

text \<open>
  C4. Whatever the environment does (record present or absent, detector returning or
  raising, any of the commits raising, the removal of the file raising, the count query
  raising, either lookup raising), \<open>process_video_analysis\<close> completes normally
  or by its own \<^verbatim>\<open>return\<close>; it never completes by raising.
\<close>

theorem process_video_analysis_never_raises:
  "fst (process_video_analysis en analyzer should_close video_id video_path w) \<in> {Normal (), Return}"
  using main_part_fst [of en analyzer video_id video_path w] by (auto simp add: process_eq)

text \<open>
  C5, as the code has it. A run on a key that is not in the table never raises and
  leaves the table as it was. When \<^verbatim>\<open>os.remove\<close> does not raise, the file is gone
  afterwards. When the first lookup does not raise, the run ends at the \<^verbatim>\<open>return\<close> of
  line 66, no counter moves, and the world differs from the one before at most in the
  file, the gauge and the closed session.
\<close>

theorem missing_record_run:
  assumes "lookup video_id w = None"
  shows "fst (process_video_analysis en analyzer should_close video_id video_path w) \<in> {Normal (), Return} \<and>
         rows (snd (process_video_analysis en analyzer should_close video_id video_path w)) = rows w \<and>
         (remove_raises en = None \<longrightarrow>
            video_path \<notin> files (snd (process_video_analysis en analyzer should_close video_id video_path w))) \<and>
         (lookup_raises en = None \<longrightarrow>
            fst (process_video_analysis en analyzer should_close video_id video_path w) = Return \<and>
            video_processed_total (snd (process_video_analysis en analyzer should_close video_id video_path w)) =
              video_processed_total w \<and>
            video_errors_total (snd (process_video_analysis en analyzer should_close video_id video_path w)) =
              video_errors_total w \<and>
            snd (process_video_analysis en analyzer should_close video_id video_path w) =
              w\<lparr>files := (if remove_raises en = None then files w - {video_path} else files w),
                videos_in_queue := (if count_raises en = None
                                    then int (length (filter in_queue (rows w))) else videos_in_queue w),
                session_closed := (should_close \<or> session_closed w)\<rparr>)"
  by (simp add: process_eq finally_block_pair main_part_absent [OF assms] metric_defs
        split: option.splits)

theorem missing_record_run_witness:
  "lookup 7 world0 = None \<and>
   fst (process_video_analysis no_faults motion_found True 7 clip_path world0) = Return \<and>
   remove_raises no_faults = None \<and> lookup_raises no_faults = None \<and>
   snd (process_video_analysis no_faults motion_found True 7 clip_path world0) =
     world0\<lparr>files := {}, videos_in_queue := 1, session_closed := True\<rparr>"
  using missing_record_run [of 7 world0 no_faults motion_found True clip_path]
  by (simp add: eval_simps)

text \<open>
  C5 as stated fails: when the lookup of line 63 raises, the handler of line 87 runs
  although no such record exists, and lines 100 and 101 count the run as processed
  with label failed and as an error; and when \<^verbatim>\<open>os.remove\<close> raises, the file stays.
\<close>

theorem missing_record_counted_when_lookup_raises:
  "lookup 7 world0 = None \<and>
   video_processed_total (snd (process_video_analysis
      (no_faults\<lparr>lookup_raises := Some ''OperationalError'', relookup_raises := Some ''OperationalError'',
                  remove_raises := Some ''PermissionError'', count_raises := Some ''OperationalError''\<rparr>)
      motion_found True 7 clip_path world0)) ''failed'' = 1 \<and>
   video_errors_total (snd (process_video_analysis
      (no_faults\<lparr>lookup_raises := Some ''OperationalError'', relookup_raises := Some ''OperationalError'',
                  remove_raises := Some ''PermissionError'', count_raises := Some ''OperationalError''\<rparr>)
      motion_found True 7 clip_path world0)) = 1 \<and>
   clip_path \<in> files (snd (process_video_analysis
      (no_faults\<lparr>lookup_raises := Some ''OperationalError'', relookup_raises := Some ''OperationalError'',
                  remove_raises := Some ''PermissionError'', count_raises := Some ''OperationalError''\<rparr>)
      motion_found True 7 clip_path world0))"
  by (simp add: eval_simps)

text \<open>
  C6. In every run, whatever was traced before a call of the detector is exactly the
  commit of the record with status processing, followed by the table as it is
  committed when the call starts: that table is the one the run found with the row of
  the record replaced by the processing one, so a lookup of the record in it gives
  status processing, not pending; and the record is not pending in the table the run
  leaves either. The detector is never called before that commit succeeded. And when
  the record exists and neither the lookup nor that commit raises, the run begins with
  that commit, then the call.
\<close>

theorem processing_committed_before_detector:
  "(new_events w (snd (process_video_analysis en analyzer should_close video_id video_path w)) =
      pre @ DetectMotion q # post \<longrightarrow>
    (\<exists>r. lookup video_id w = Some r \<and>
         pre = [Commit (r\<lparr>status := PROCESSING\<rparr>),
                Snapshot (map (\<lambda>x. if id_uuid x = video_id then r\<lparr>status := PROCESSING\<rparr> else x) (rows w))] \<and>
         find (\<lambda>x. id_uuid x = video_id)
           (map (\<lambda>x. if id_uuid x = video_id then r\<lparr>status := PROCESSING\<rparr> else x) (rows w)) =
           Some (r\<lparr>status := PROCESSING\<rparr>) \<and>
         status_trace video_id pre = [PROCESSING] \<and> q = video_path \<and>
         (\<exists>r'. lookup video_id (snd (process_video_analysis en analyzer should_close video_id video_path w)) =
                 Some r' \<and> status r' \<noteq> PENDING))) \<and>
   (lookup video_id w = Some r \<and> lookup_raises en = None \<and> commit_processing_raises en = None \<longrightarrow>
    take 3 (new_events w (snd (process_video_analysis en analyzer should_close video_id video_path w))) =
      [Commit (r\<lparr>status := PROCESSING\<rparr>),
       Snapshot (map (\<lambda>x. if id_uuid x = video_id then r\<lparr>status := PROCESSING\<rparr> else x) (rows w)),
       DetectMotion video_path])"
proof (cases "lookup video_id w")
  case None
  then show ?thesis by (simp add: process_new_events new_events_absent)
next
  case (Some r0)
  have k: "id_uuid r0 = video_id" by (rule lookup_key [OF Some])
  have f: "find (\<lambda>x. id_uuid x = video_id)
             (map (\<lambda>x. if id_uuid x = video_id then r0\<lparr>status := PROCESSING\<rparr> else x) (rows w)) =
           Some (r0\<lparr>status := PROCESSING\<rparr>)"
    using Some k by (simp add: lookup_def find_map_update)
  show ?thesis
    by (auto simp add: process_new_events process_lookup new_events_present [OF Some]
          final_record_present [OF Some] Some k f Let_def
          Cons_eq_append_conv append_eq_Cons_conv
          split: option.splits sum.splits prod.splits if_splits)
qed

theorem processing_committed_before_detector_witness:
  "new_events world0 (snd (process_video_analysis no_faults unreadable True 1 clip_path world0)) =
      [Commit (clip\<lparr>status := PROCESSING\<rparr>), Snapshot [clip\<lparr>status := PROCESSING\<rparr>]] @
      DetectMotion clip_path #
      [Commit (clip\<lparr>status := FAILED, error_message := Some ''Could not open video file''\<rparr>)] \<and>
   map (\<lambda>x. if id_uuid x = 1 then clip\<lparr>status := PROCESSING\<rparr> else x) (rows world0) =
     [clip\<lparr>status := PROCESSING\<rparr>] \<and>
   lookup 1 world0 = Some clip \<and> lookup_raises no_faults = None \<and>
   commit_processing_raises no_faults = None \<and>
   take 3 (new_events world0 (snd (process_video_analysis no_faults unreadable True 1 clip_path world0))) =
      [Commit (clip\<lparr>status := PROCESSING\<rparr>), Snapshot [clip\<lparr>status := PROCESSING\<rparr>],
       DetectMotion clip_path]"
  using processing_committed_before_detector [of world0 no_faults unreadable True 1 clip_path
      "[Commit (clip\<lparr>status := PROCESSING\<rparr>), Snapshot [clip\<lparr>status := PROCESSING\<rparr>]]" clip_path
      "[Commit (clip\<lparr>status := FAILED, error_message := Some ''Could not open video file''\<rparr>)]" clip]
  by (simp add: eval_simps)

text \<open>
  C7, as the code has it. In a run that calls the detector: when the detector returns
  \<open>(hm, d)\<close> and the commit of the result does not raise, the processed counter
  labelled completed goes up by one, no other label moves, the value \<open>d / 1000\<close> is
  observed once and the error counter stays; when the detector raises, or the commit
  of the result raises, the processed counter labelled failed goes up by one, no other
  label moves, the error counter goes up by one and nothing is observed.
\<close>

theorem metrics_follow_outcome:
  assumes "DetectMotion video_path \<in>
             set (new_events w (snd (process_video_analysis en analyzer should_close video_id video_path w)))"
  shows "(analyzer video_path = Inr (hm, d) \<and> commit_completed_raises en = None \<longrightarrow>
            video_processed_total (snd (process_video_analysis en analyzer should_close video_id video_path w)) =
              (video_processed_total w)(''completed'' := video_processed_total w ''completed'' + 1) \<and>
            video_processing_duration_seconds
                (snd (process_video_analysis en analyzer should_close video_id video_path w)) =
              video_processing_duration_seconds w @ [real_of_int d / 1000] \<and>
            video_errors_total (snd (process_video_analysis en analyzer should_close video_id video_path w)) =
              video_errors_total w) \<and>
         (analyzer video_path = Inl m \<or> commit_completed_raises en = Some m \<longrightarrow>
            video_processed_total (snd (process_video_analysis en analyzer should_close video_id video_path w)) =
              (video_processed_total w)(''failed'' := video_processed_total w ''failed'' + 1) \<and>
            video_processing_duration_seconds
                (snd (process_video_analysis en analyzer should_close video_id video_path w)) =
              video_processing_duration_seconds w \<and>
            video_errors_total (snd (process_video_analysis en analyzer should_close video_id video_path w)) =
              video_errors_total w + 1)"
proof -
  from assms obtain r where r: "lookup video_id w = Some r"
    and l: "lookup_raises en = None" and c: "commit_processing_raises en = None"
    by (auto simp add: process_new_events detector_called_iff)
  show ?thesis
    using metrics_completed [OF r l c, of analyzer video_path hm d]
      metrics_failed [OF r l c, of analyzer video_path m]
    by (auto simp add: process_projections)
qed

theorem metrics_follow_outcome_witness:
  "DetectMotion clip_path \<in>
     set (new_events world0 (snd (process_video_analysis no_faults motion_found True 1 clip_path world0))) \<and>
   motion_found clip_path = Inr (True, 250) \<and> commit_completed_raises no_faults = None \<and>
   video_processed_total (snd (process_video_analysis no_faults motion_found True 1 clip_path world0)) =
     (\<lambda>label. 0)(''completed'' := 1) \<and>
   video_processing_duration_seconds (snd (process_video_analysis no_faults motion_found True 1 clip_path world0)) =
     [1 / 4] \<and>
   video_errors_total (snd (process_video_analysis no_faults motion_found True 1 clip_path world0)) = 0 \<and>
   DetectMotion clip_path \<in>
     set (new_events world0 (snd (process_video_analysis no_faults unreadable True 1 clip_path world0))) \<and>
   unreadable clip_path = Inl ''Could not open video file'' \<and>
   video_processed_total (snd (process_video_analysis no_faults unreadable True 1 clip_path world0)) =
     (\<lambda>label. 0)(''failed'' := 1) \<and>
   video_processing_duration_seconds (snd (process_video_analysis no_faults unreadable True 1 clip_path world0)) =
     [] \<and>
   video_errors_total (snd (process_video_analysis no_faults unreadable True 1 clip_path world0)) = 1"
  using metrics_follow_outcome [of clip_path world0 no_faults motion_found True 1 True 250 "''''"]
    metrics_follow_outcome [of clip_path world0 no_faults unreadable True 1 True 250
      "''Could not open video file''"]
  by (simp add: eval_simps)

text \<open>
  C7 as stated fails: the detector returns, the commit of line 79 raises, and the run
  is handled as a failure (lines 87 to 101). The counter labelled completed does not
  move and nothing is observed, although the detector call succeeded.
\<close>

theorem completed_not_counted_when_its_commit_raises:
  "DetectMotion clip_path \<in> set (new_events world0 (snd (process_video_analysis
      (no_faults\<lparr>commit_completed_raises := Some ''OperationalError''\<rparr>) motion_found True 1 clip_path world0))) \<and>
   motion_found clip_path = Inr (True, 250) \<and>
   video_processed_total (snd (process_video_analysis
      (no_faults\<lparr>commit_completed_raises := Some ''OperationalError''\<rparr>) motion_found True 1 clip_path world0))
      ''completed'' = 0 \<and>
   video_processing_duration_seconds (snd (process_video_analysis
      (no_faults\<lparr>commit_completed_raises := Some ''OperationalError''\<rparr>) motion_found True 1 clip_path world0)) = [] \<and>
   video_processed_total (snd (process_video_analysis
      (no_faults\<lparr>commit_completed_raises := Some ''OperationalError''\<rparr>) motion_found True 1 clip_path world0))
      ''failed'' = 1 \<and>
   video_errors_total (snd (process_video_analysis
      (no_faults\<lparr>commit_completed_raises := Some ''OperationalError''\<rparr>) motion_found True 1 clip_path world0)) = 1"
  by (simp add: eval_simps)

text \<open>
  C8, as the code has it. For a record that is pending and without analysis time when
  the task starts on it: afterwards it has an analysis time exactly when it is
  completed, and then it is the clock reading of line 77; every row the run committed
  has that reading if it is the completed one and no analysis time otherwise, so the
  column is written at most once, by the one commit that completes the record, and is
  empty before and when the record fails. The upload time is unchanged, and the analysis time is not
  earlier than it provided the clock reading is not.
\<close>

theorem analysis_time_of_run:
  assumes "lookup video_id w = Some r" and "status r = PENDING" and "analysis_time r = None"
      and "lookup video_id (snd (process_video_analysis en analyzer should_close video_id video_path w)) = Some r'"
  shows "analysis_time r' = (if status r' = COMPLETED then Some (utcnow en) else None) \<and>
         upload_time r' = upload_time r \<and>
         (upload_time r \<le> utcnow en \<longrightarrow> (\<forall>t. analysis_time r' = Some t \<longrightarrow> upload_time r' \<le> t)) \<and>
         (\<forall>c. Commit c \<in> set (new_events w
                  (snd (process_video_analysis en analyzer should_close video_id video_path w))) \<longrightarrow>
              analysis_time c = (if status c = COMPLETED then Some (utcnow en) else None)) \<and>
         length (filter (\<lambda>s. s = COMPLETED) (status_trace video_id (new_events w
                  (snd (process_video_analysis en analyzer should_close video_id video_path w))))) \<le> 1"
proof -
  have k: "id_uuid r = video_id" by (rule lookup_key [OF assms(1)])
  have c: "length (filter (\<lambda>s. s = COMPLETED) (status_trace video_id (new_events w
                  (snd (process_video_analysis en analyzer should_close video_id video_path w))))) \<le> 1"
    by (simp add: k process_new_events new_events_present [OF assms(1)] Let_def
        split: option.splits sum.splits prod.splits)
  have a: "analysis_time r' = (if status r' = COMPLETED then Some (utcnow en) else None) \<and>
         upload_time r' = upload_time r"
    using assms(2-)
    by (auto simp add: process_lookup final_record_present [OF assms(1)] Let_def
        split: option.splits sum.splits prod.splits if_splits)
  have b: "\<forall>c. Commit c \<in> set (new_events w
                  (snd (process_video_analysis en analyzer should_close video_id video_path w))) \<longrightarrow>
              analysis_time c = (if status c = COMPLETED then Some (utcnow en) else None)"
    using assms(2,3)
    by (auto simp add: process_new_events new_events_present [OF assms(1)] Let_def
        split: option.splits sum.splits prod.splits if_splits)
  from a b c show ?thesis by (auto split: if_splits)
qed

theorem analysis_time_of_run_witness:
  "lookup 1 world0 = Some clip \<and> status clip = PENDING \<and> analysis_time clip = None \<and>
   lookup 1 (snd (process_video_analysis no_faults motion_found True 1 clip_path world0)) =
     Some (clip\<lparr>has_motion := Some True, processing_duration_ms := Some 250,
                analysis_time := Some 2000, status := COMPLETED\<rparr>) \<and>
   upload_time clip \<le> utcnow no_faults \<and>
   Commit (clip\<lparr>status := PROCESSING\<rparr>) \<in> set (new_events world0
      (snd (process_video_analysis no_faults motion_found True 1 clip_path world0))) \<and>
   analysis_time (clip\<lparr>status := PROCESSING\<rparr>) = None"
  using analysis_time_of_run [of 1 world0 clip no_faults motion_found True clip_path
      "clip\<lparr>has_motion := Some True, processing_duration_ms := Some 250,
                analysis_time := Some 2000, status := COMPLETED\<rparr>"]
  by (simp add: eval_simps)

text \<open>
  C8 as stated fails: the handler of lines 92 to 96 sets only the status and the error
  message, so a record driven to failed has no analysis time.
\<close>

theorem analysis_time_absent_after_failure:
  "map_option status (lookup 1 (snd (process_video_analysis no_faults unreadable True 1 clip_path world0))) =
     Some FAILED \<and>
   map_option analysis_time (lookup 1 (snd (process_video_analysis no_faults unreadable True 1 clip_path world0))) =
     Some None"
  by (simp add: eval_simps)

text \<open>
  The order of the two times depends on the clock: with a reading of line 77 that is
  earlier than the upload time the completed record has an analysis time before its
  upload time.
\<close>

lemma analysis_time_follows_the_clock:
  "map_option analysis_time (lookup 1 (snd (process_video_analysis
      (no_faults\<lparr>utcnow := 500\<rparr>) motion_found True 1 clip_path world0))) = Some (Some 500) \<and>
   map_option upload_time (lookup 1 (snd (process_video_analysis
      (no_faults\<lparr>utcnow := 500\<rparr>) motion_found True 1 clip_path world0))) = Some 1000"
  by (simp add: eval_simps)

text \<open>
  C9, as the code has it. The count query of lines 113 to 115 does not raise when the
  environment does not make it raise and no commit of the run has raised (a commit that
  raised leaves the session with a failed transaction, on which the query raises).
  Then the gauge after the run is the number of rows whose status is pending or
  processing in the table as the run leaves it.
\<close>

theorem queue_gauge_after_successful_count:
  "count_raises en = None \<Longrightarrow>
   \<not> commit_raised (new_events w
        (snd (process_video_analysis en analyzer should_close video_id video_path w))) \<Longrightarrow>
     videos_in_queue (snd (process_video_analysis en analyzer should_close video_id video_path w)) =
     int (length (filter in_queue
            (rows (snd (process_video_analysis en analyzer should_close video_id video_path w)))))"
  using session_failed_iff [of en analyzer video_id video_path w]
  unfolding process_new_events
  by (simp add: process_eq finally_block_pair)

theorem queue_gauge_after_successful_count_witness:
  "count_raises no_faults = None \<and>
   \<not> commit_raised (new_events world0
        (snd (process_video_analysis no_faults motion_found True 1 clip_path world0))) \<and>
   videos_in_queue (snd (process_video_analysis no_faults motion_found True 1 clip_path world0)) = 0 \<and>
   filter in_queue (rows (snd (process_video_analysis no_faults motion_found True 1 clip_path world0))) = []"
  using queue_gauge_after_successful_count [of no_faults world0 motion_found True 1 clip_path]
  by (simp add: eval_simps)

text \<open>
  When the query raises, for either reason, the gauge keeps the value it had.
\<close>

lemma queue_gauge_kept_when_count_raises:
  "count_raises en \<noteq> None \<or>
   commit_raised (new_events w
        (snd (process_video_analysis en analyzer should_close video_id video_path w))) \<Longrightarrow>
     videos_in_queue (snd (process_video_analysis en analyzer should_close video_id video_path w)) =
     videos_in_queue w"
  using session_failed_iff [of en analyzer video_id video_path w]
  unfolding process_new_events
  by (auto simp add: process_eq finally_block_pair main_part_gauge)

text \<open>
  A commit that raised is enough for that: here the commit of line 69 raises, the
  environment would let the count query through, the query raises on the failed
  transaction, and the gauge stays at zero with one row still pending.
\<close>

lemma queue_gauge_stale_after_failed_commit:
  "count_raises (no_faults\<lparr>commit_processing_raises := Some ''OperationalError''\<rparr>) = None \<and>
   videos_in_queue (snd (process_video_analysis
       (no_faults\<lparr>commit_processing_raises := Some ''OperationalError''\<rparr>) motion_found True 1 clip_path
       (world0\<lparr>videos_in_queue := 0\<rparr>))) = 0 \<and>
   int (length (filter in_queue (rows (snd (process_video_analysis
       (no_faults\<lparr>commit_processing_raises := Some ''OperationalError''\<rparr>) motion_found True 1 clip_path
       (world0\<lparr>videos_in_queue := 0\<rparr>)))))) = 1"
  by (simp add: eval_simps)

text \<open>
  C9 as stated fails: when the count query raises, the handler of line 117 logs the
  error and the gauge keeps its old value, here one, while no row is pending or
  processing any more.
\<close>

theorem queue_gauge_stale_when_count_raises:
  "videos_in_queue (snd (process_video_analysis
       (no_faults\<lparr>count_raises := Some ''OperationalError''\<rparr>) motion_found True 1 clip_path world0)) = 1 \<and>
   int (length (filter in_queue (rows (snd (process_video_analysis
       (no_faults\<lparr>count_raises := Some ''OperationalError''\<rparr>) motion_found True 1 clip_path world0))))) = 0"
  by (simp add: eval_simps)

section \<open>Properties of the detector\<close>

text \<open>
  C10, as the code has it. \<open>detect_motion\<close> raises \<^verbatim>\<open>ValueError\<close> when the file
  cannot be opened and when it has no frame to read. When the first frame is read,
  \<open>frame_skip\<close> is not \<open>-1\<close> and every frame converts to a grayscale image of one
  and the same size, so that no call into OpenCV raises, it returns, with the elapsed
  time in milliseconds as the duration. On a video of exactly one frame, which
  converts, it returns no motion, whatever the configuration. The duration is not
  negative provided the second clock reading is not earlier than the first.
\<close>

theorem detect_motion_failure_conditions:
  "detect_motion cvt a start_time end_time video_path None =
     Inl (ValueError (''Could not open video file: '' @ video_path)) \<and>
   detect_motion cvt a start_time end_time video_path (Some []) =
     Inl (ValueError ''Could not read the first frame of the video'') \<and>
   (frame_skip a \<noteq> - 1 \<and>
    (\<forall>f \<in> set (prev_frame # rest). \<exists>g. cvt f = Some g \<and> map length g = size_of_frames) \<longrightarrow>
      (\<exists>motion. detect_motion cvt a start_time end_time video_path (Some (prev_frame # rest)) =
         Inr (motion, py_int ((end_time - start_time) * 1000)))) \<and>
   (cvt prev_frame \<noteq> None \<longrightarrow>
      detect_motion cvt a start_time end_time video_path (Some [prev_frame]) =
        Inr (False, py_int ((end_time - start_time) * 1000))) \<and>
   (start_time \<le> end_time \<longrightarrow> 0 \<le> py_int ((end_time - start_time) * 1000))"
proof -
  have "frame_skip a \<noteq> - 1 \<and>
    (\<forall>f \<in> set (prev_frame # rest). \<exists>g. cvt f = Some g \<and> map length g = size_of_frames) \<longrightarrow>
      (\<exists>motion. detect_motion cvt a start_time end_time video_path (Some (prev_frame # rest)) =
         Inr (motion, py_int ((end_time - start_time) * 1000)))"
  proof
    assume h: "frame_skip a \<noteq> - 1 \<and>
      (\<forall>f \<in> set (prev_frame # rest). \<exists>g. cvt f = Some g \<and> map length g = size_of_frames)"
    then obtain g where g: "cvt prev_frame = Some g" "map length g = size_of_frames" by auto
    from h have "\<forall>f \<in> set rest. \<exists>g. cvt f = Some g \<and> map length g = size_of_frames" by simp
    from analyze_frames_returns [OF _ this g(2), of a 0 0 False] h
    obtain m n where "analyze_frames cvt a g 0 0 False rest = Inr (m, n)" by blast
    then show "\<exists>motion. detect_motion cvt a start_time end_time video_path (Some (prev_frame # rest)) =
         Inr (motion, py_int ((end_time - start_time) * 1000))"
      by (simp add: detect_motion_def g)
  qed
  moreover have "start_time \<le> end_time \<longrightarrow> 0 \<le> py_int ((end_time - start_time) * 1000)"
    by (simp add: py_int_nonneg)
  moreover have "cvt prev_frame \<noteq> None \<longrightarrow>
      detect_motion cvt a start_time end_time video_path (Some [prev_frame]) =
        Inr (False, py_int ((end_time - start_time) * 1000))"
    by (auto simp add: detect_motion_def)
  ultimately show ?thesis by (simp add: detect_motion_def)
qed

theorem detect_motion_failure_conditions_witness:
  "frame_skip get_video_analyzer \<noteq> - 1 \<and>
   map length [[0::nat]] = [1] \<and>
   Some [[0::nat]] \<noteq> None \<and> (0::real) \<le> 1 / 4 \<and>
   detect_motion Some get_video_analyzer 0 (1 / 4) ''clip.mp4'' (Some [[[0]], [[0]]]) = Inr (False, 250) \<and>
   detect_motion Some get_video_analyzer 0 (1 / 4) ''clip.mp4'' (Some [[[0]]]) = Inr (False, 250) \<and>
   detect_motion Some get_video_analyzer 0 (1 / 4) ''clip.mp4'' None =
     Inl (ValueError ''Could not open video file: clip.mp4'')"
  using detect_motion_failure_conditions [of Some get_video_analyzer 0 "1 / 4" "''clip.mp4''"
      "[[0]]" "[[[0]]]" "[1]"]
  by (simp add: get_video_analyzer_def py_int_def detect_motion_def)

text \<open>
  C10 as stated fails, in three ways. The file opens and its first frame is read, and:
  the second frame has another size than the first, so that \<^verbatim>\<open>absdiff\<close> raises
  \<^verbatim>\<open>cv2.error\<close> (line 69); or the video has one frame and the clock is set back by a
  second during the call, so that the duration is negative; or \<open>frame_skip\<close> is
  \<open>-1\<close>, so that line 62 computes \<^verbatim>\<open>frame_count % 0\<close> at the second frame, which
  raises \<^verbatim>\<open>ZeroDivisionError\<close>.
\<close>

theorem detect_motion_other_failures:
  "detect_motion Some \<lparr>motion_threshold = 1 / 100, frame_skip = 0\<rparr> 0 (1 / 4) ''clip.mp4''
     (Some [[[0, 0]], [[0]]]) = Inl Cv2Error \<and>
   detect_motion Some get_video_analyzer 1 0 ''clip.mp4'' (Some [[[0]]]) = Inr (False, - 1000) \<and>
   detect_motion Some \<lparr>motion_threshold = 1 / 100, frame_skip = - 1\<rparr> 0 1 ''clip.mp4''
     (Some [[[0]], [[0]]]) = Inl ZeroDivisionError"
  by (simp add: detect_motion_def motion_ratio_def absdiff_def py_int_def)

text \<open>A frame that OpenCV cannot convert makes the function raise as well.\<close>

lemma detect_motion_unconvertible_frame:
  "detect_motion (\<lambda>f. if f = [] then None else Some f) get_video_analyzer 0 (1 / 4) ''clip.mp4''
     (Some [[]]) = Inl Cv2Error"
  by (simp add: detect_motion_def)

text \<open>Two runs of the detector on two frames of two pixels, one pixel moving or not.\<close>

lemma detect_motion_moving_pixel:
  "detect_motion Some \<lparr>motion_threshold = 1 / 100, frame_skip = 0\<rparr> 0 (1 / 4) ''clip.mp4''
     (Some [[[0, 0]], [[0, 255]]]) = Inr (True, 250)"
  by (simp add: detect_motion_def motion_ratio_def absdiff_def threshold_binary_def countNonZero_def
        shape0_def shape1_def py_int_def)

lemma detect_motion_still_frames:
  "detect_motion Some \<lparr>motion_threshold = 1 / 100, frame_skip = 0\<rparr> 0 (1 / 4) ''clip.mp4''
     (Some [[[0, 0]], [[0, 20]]]) = Inr (False, 250)"
  by (simp add: detect_motion_def motion_ratio_def absdiff_def threshold_binary_def countNonZero_def
        shape0_def shape1_def py_int_def)

end
